theory Spec2Isabelle
  imports Complex_Main "HOL-Library.Multiset" "HOL-Library.Sublist"
begin

section \<open>Python values used by the notebooks\<close>

text \<open>
  A Python \<^verbatim>\<open>str\<close> is a sequence of Unicode code points: slicing and the \<^verbatim>\<open>in\<close>
  operator count code points, not bytes (the Turkish speeches and prompts are not ASCII).
  A string is therefore a list of code points; \<open>ascii\<close> embeds an ASCII literal.
\<close>

type_synonym codepoint = nat
type_synonym str = "codepoint list"

definition ascii :: "string \<Rightarrow> str" where
  "ascii s = map of_char s"

text \<open>
  The exceptions the modelled cells can raise. \<open>FormatNotModelled\<close> is not a Python
  exception: it marks a template outside the modelled part of \<^verbatim>\<open>str.format\<close>.
\<close>

datatype py_exception = ValueError | KeyError | IndexError | ZeroDivisionError | FormatNotModelled

text \<open>
  \<^verbatim>\<open>needle in haystack\<close> on two strings: substring containment, tried at every
  position of the haystack from left to right.
\<close>

fun str_in :: "str \<Rightarrow> str \<Rightarrow> bool" where
  "str_in needle [] = (needle = [])"
| "str_in needle (c # cs) = (prefix needle (c # cs) \<or> str_in needle cs)"

section \<open>Answer extraction (task1.ipynb and task2.ipynb, cell 16)\<close>

text \<open>
  \<^verbatim>\<open>
  def process_predictions(predictions):
      binary_results = []
      for pred in predictions:
          if "0" in pred:
              binary_results.append(0)
          elif "1" in pred:
              binary_results.append(1)
          else:
              binary_results.append(None)  # Model uncertain
      return binary_results
  \<close>
  The loop is \<open>process_loop\<close>, with the list under construction as its first argument;
  \<^verbatim>\<open>None\<close> is \<open>None\<close>, the labels are \<open>Some 0\<close> and \<open>Some 1\<close>.
\<close>

fun process_loop :: "int option list \<Rightarrow> str list \<Rightarrow> int option list" where
  "process_loop binary_results [] = binary_results"
| "process_loop binary_results (pred # predictions) =
     process_loop
       (if str_in (ascii ''0'') pred then binary_results @ [Some 0]
        else if str_in (ascii ''1'') pred then binary_results @ [Some 1]
        else binary_results @ [None])
       predictions"

definition process_predictions :: "str list \<Rightarrow> int option list" where
  "process_predictions predictions = process_loop [] predictions"

section \<open>Zero-shot inference (task1.ipynb and task2.ipynb, cells 15 to 18)\<close>

subsection \<open>The test set\<close>

text \<open>
  A row of the processed test file: the columns \<^verbatim>\<open>id, speaker, sex, text, text_en, label\<close>.
  Rows with a missing value were dropped before the split, so every column holds a value.
\<close>

record speech =
  id_col :: str
  speaker :: str
  sex :: str
  text_col :: str
  text_en :: str
  label :: int

text \<open>The two values \<^verbatim>\<open>column_name\<close> takes in the notebooks: \<^verbatim>\<open>"text"\<close> and \<^verbatim>\<open>"text_en"\<close>.\<close>

datatype column_name = Text | Text_en

fun get_column :: "column_name \<Rightarrow> speech \<Rightarrow> str" where
  "get_column Text x = text_col x"
| "get_column Text_en x = text_en x"

fun set_column :: "column_name \<Rightarrow> str \<Rightarrow> speech \<Rightarrow> speech" where
  "set_column Text v x = x\<lparr>text_col := v\<rparr>"
| "set_column Text_en v x = x\<lparr>text_en := v\<rparr>"

text \<open>
  \<^verbatim>\<open>
  def limit_text_length(dataset, column_name="text"):
      return dataset.map(lambda x: {column_name: x[column_name][:500]})
  \<close>
  The slice \<^verbatim>\<open>[:500]\<close> keeps the first 500 code points (all of a shorter string).
\<close>

definition limit_text_length :: "speech list \<Rightarrow> column_name \<Rightarrow> speech list" where
  "limit_text_length dataset column_name =
     map (\<lambda>x. set_column column_name (take 500 (get_column column_name x)) x) dataset"

subsection \<open>Built-in string methods\<close>

text \<open>
  \<^verbatim>\<open>str.strip()\<close> removes leading and trailing whitespace: the code points for which
  \<^verbatim>\<open>str.isspace\<close> holds.
\<close>

definition isspace :: "codepoint \<Rightarrow> bool" where
  "isspace c \<longleftrightarrow>
     c \<in> {9, 10, 11, 12, 13, 28, 29, 30, 31, 32, 133, 160, 5760}
       \<union> {8192..8202} \<union> {8232, 8233, 8239, 8287, 12288}"

definition strip :: "str \<Rightarrow> str" where
  "strip s = rev (dropWhile isspace (rev (dropWhile isspace s)))"

text \<open>
  \<^verbatim>\<open>prompt_template.format(text=text)\<close>: the template is read from left to right;
  \<^verbatim>\<open>{{\<close> and \<^verbatim>\<open>}}\<close> stand for one brace, \<^verbatim>\<open>{name}\<close> is replaced by the keyword argument
  of that name, and the only keyword argument is \<^verbatim>\<open>text\<close>. A lone brace or an
  unterminated field raises \<^verbatim>\<open>ValueError\<close>, an unknown name \<^verbatim>\<open>KeyError\<close>. Field names
  made of ASCII letters and underscores are modelled; any other field (positional
  indices, conversions, format specifications, attribute and item lookups) yields
  \<open>FormatNotModelled\<close>. None of the notebooks' templates has such a field.
\<close>

datatype format_state = Literal | After_open | In_field str | After_close

definition is_name_char :: "codepoint \<Rightarrow> bool" where
  "is_name_char c \<longleftrightarrow> (65 \<le> c \<and> c \<le> 90) \<or> (97 \<le> c \<and> c \<le> 122) \<or> c = 95"

definition lookup_field :: "str \<Rightarrow> str \<Rightarrow> py_exception + str" where
  "lookup_field name text_arg =
     (if name = ascii ''text'' then Inr text_arg
      else if name \<noteq> [] \<and> list_all is_name_char name then Inl KeyError
      else Inl FormatNotModelled)"

definition emit :: "str \<Rightarrow> py_exception + str \<Rightarrow> py_exception + str" where
  "emit s r = (case r of Inl e \<Rightarrow> Inl e | Inr rest \<Rightarrow> Inr (s @ rest))"

fun format_from :: "format_state \<Rightarrow> str \<Rightarrow> str \<Rightarrow> py_exception + str" where
  "format_from Literal [] text_arg = Inr []"
| "format_from Literal (c # cs) text_arg =
     (if c = 123 then format_from After_open cs text_arg
      else if c = 125 then format_from After_close cs text_arg
      else emit [c] (format_from Literal cs text_arg))"
| "format_from After_open [] text_arg = Inl ValueError"
| "format_from After_open (c # cs) text_arg =
     (if c = 123 then emit [123] (format_from Literal cs text_arg)
      else if c = 125 then Inl FormatNotModelled
      else format_from (In_field [c]) cs text_arg)"
| "format_from (In_field name) [] text_arg =
     (if list_all is_name_char name then Inl ValueError else Inl FormatNotModelled)"
| "format_from (In_field name) (c # cs) text_arg =
     (if c = 125 then
        (case lookup_field name text_arg of
           Inl e \<Rightarrow> Inl e
         | Inr v \<Rightarrow> emit v (format_from Literal cs text_arg))
      else format_from (In_field (name @ [c])) cs text_arg)"
| "format_from After_close [] text_arg = Inl ValueError"
| "format_from After_close (c # cs) text_arg =
     (if c = 125 then emit [125] (format_from Literal cs text_arg) else Inl ValueError)"

definition format_text :: "str \<Rightarrow> str \<Rightarrow> py_exception + str" where
  "format_text prompt_template text_arg = format_from Literal prompt_template text_arg"

text \<open>
  A list comprehension evaluates its elements from left to right and stops at the first
  one that raises.
\<close>

fun comprehension :: "('e + 'a) list \<Rightarrow> 'e + 'a list" where
  "comprehension [] = Inr []"
| "comprehension (r # rs) =
     (case r of
        Inl e \<Rightarrow> Inl e
      | Inr x \<Rightarrow> (case comprehension rs of Inl e \<Rightarrow> Inl e | Inr xs \<Rightarrow> Inr (x # xs)))"

subsection \<open>Generation\<close>

text \<open>
  \<^verbatim>\<open>causal_pipeline\<close> is the text-generation pipeline of the transformers library around
  \<^verbatim>\<open>bigscience/bloomz-1b1\<close>. It is not part of the repository, so it is a parameter: given
  the prompts and \<^verbatim>\<open>max_new_tokens\<close> it returns, per prompt, a list of dictionaries with
  the key \<^verbatim>\<open>generated_text\<close>.
\<close>

record generation =
  generated_text :: str

type_synonym pipeline = "str list \<Rightarrow> nat \<Rightarrow> generation list list"

text \<open>
  \<^verbatim>\<open>
  def generate_texts(batch, column_name="text", prompt_template="Classify the text"):
      prompts = [prompt_template.format(text=text) for text in batch[column_name]]
      outputs = causal_pipeline(prompts, max_new_tokens=10)
      return {"predictions": [output[0]["generated_text"].strip() for output in outputs]}
  \<close>
  \<^verbatim>\<open>output[0]\<close> raises \<^verbatim>\<open>IndexError\<close> on an empty list.
\<close>

definition generate_texts ::
    "pipeline \<Rightarrow> speech list \<Rightarrow> column_name \<Rightarrow> str \<Rightarrow> py_exception + str list" where
  "generate_texts causal_pipeline batch column_name prompt_template =
     (case comprehension (map (\<lambda>x. format_text prompt_template (get_column column_name x)) batch) of
        Inl e \<Rightarrow> Inl e
      | Inr prompts \<Rightarrow>
          (let outputs = causal_pipeline prompts 10
           in comprehension
                (map (\<lambda>output. case output of
                                   [] \<Rightarrow> Inl IndexError
                                 | first # _ \<Rightarrow> Inr (strip (generated_text first)))
                     outputs)))"

text \<open>
  \<^verbatim>\<open>dataset.map(f, batched=True, batch_size=8)\<close> cuts the rows into consecutive batches
  of \<open>batch_size\<close> rows (the last one may be shorter), calls \<open>f\<close> on each batch in order
  and concatenates the returned columns. A returned column whose length differs from its
  batch is refused by the library with an error that is a \<^verbatim>\<open>ValueError\<close>. The library
  returns an empty dataset as it is, without calling \<open>f\<close> and without adding a column;
  that case is handled where the cell reads the column (\<open>zero_shot\<close> below), so
  \<open>map_batched\<close> is only applied to datasets with at least one row.
\<close>

function batches :: "nat \<Rightarrow> 'a list \<Rightarrow> 'a list list" where
  "batches batch_size rows =
     (if rows = [] then []
      else if batch_size = 0 then [rows]
      else take batch_size rows # batches batch_size (drop batch_size rows))"
  by pat_completeness auto
termination
  by (relation "measure (\<lambda>(batch_size, rows). length rows)") auto

declare batches.simps [simp del]

fun map_batches :: "('a list \<Rightarrow> 'e + 'b list) \<Rightarrow> 'a list list \<Rightarrow> 'e + 'b list" where
  "map_batches f [] = Inr []"
| "map_batches f (batch # rest) =
     (case f batch of
        Inl e \<Rightarrow> Inl e
      | Inr column \<Rightarrow>
          (case map_batches f rest of
             Inl e \<Rightarrow> Inl e
           | Inr columns \<Rightarrow> Inr (column @ columns)))"

definition map_batched ::
    "(speech list \<Rightarrow> py_exception + str list) \<Rightarrow> nat \<Rightarrow> speech list \<Rightarrow> py_exception + str list" where
  "map_batched f batch_size dataset =
     map_batches
       (\<lambda>batch. case f batch of
                  Inl e \<Rightarrow> Inl e
                | Inr column \<Rightarrow> if length column = length batch then Inr column else Inl ValueError)
       (batches batch_size dataset)"

subsection \<open>The prompts\<close>

text \<open>
  The four templates, code point by code point: 351 is s-cedilla, 287 g-breve, 305 dotless i,
  252 u-umlaut, 39 the apostrophe and 10 the newline.
  \<^item> task1 \<^verbatim>\<open>turkish_prompt\<close>: "Asagidaki meclis konusmasina dayanarak, konusmacinin partisinin
    sol (0) ya da sag (1) egilimli oldugunu belirtiniz:\n\n{text}\n\nCevap:" (with the Turkish letters);
  \<^item> task1 \<^verbatim>\<open>english_prompt\<close>: "Based on the following parliamentary speech, classify whether
    the speaker's party leans left (0) or right (1):\n\n{text}\n\nAnswer:";
  \<^item> task2 \<^verbatim>\<open>turkish_prompt\<close>: "... partisinin hukumette (0) ya da muhalefette (1) oldugunu
    belirtiniz:\n\n{text}\n\nCevap:";
  \<^item> task2 \<^verbatim>\<open>english_prompt\<close>: "... whether the speaker's party is governing (0) or
    opposition (1):\n\n{text}\n\nAnswer:".
\<close>

text \<open>The default of \<^verbatim>\<open>generate_texts\<close>: \<^verbatim>\<open>prompt_template="Classify the text"\<close>.\<close>

definition default_prompt_template :: str where
  "default_prompt_template = ascii ''Classify the text''"

definition task1_turkish_prompt :: str where
  "task1_turkish_prompt =
     ascii ''A'' @ [351] @ ascii ''a'' @ [287, 305] @ ascii ''daki meclis konu'' @ [351]
     @ ascii ''mas'' @ [305] @ ascii ''na dayanarak, konu'' @ [351] @ ascii ''mac'' @ [305]
     @ ascii ''n'' @ [305] @ ascii ''n partisinin sol (0) ya da sa'' @ [287] @ ascii '' (1) e''
     @ [287] @ ascii ''ilimli oldu'' @ [287] @ ascii ''unu belirtiniz:'' @ [10, 10]
     @ ascii ''{text}'' @ [10, 10] @ ascii ''Cevap:''"

definition task1_english_prompt :: str where
  "task1_english_prompt =
     ascii ''Based on the following parliamentary speech, classify whether the speaker'' @ [39]
     @ ascii ''s party leans left (0) or right (1):'' @ [10, 10]
     @ ascii ''{text}'' @ [10, 10] @ ascii ''Answer:''"

definition task2_turkish_prompt :: str where
  "task2_turkish_prompt =
     ascii ''A'' @ [351] @ ascii ''a'' @ [287, 305] @ ascii ''daki meclis konu'' @ [351]
     @ ascii ''mas'' @ [305] @ ascii ''na dayanarak, konu'' @ [351] @ ascii ''mac'' @ [305]
     @ ascii ''n'' @ [305] @ ascii ''n partisinin h'' @ [252] @ ascii ''k'' @ [252]
     @ ascii ''mette (0) ya da muhalefette (1) oldu'' @ [287] @ ascii ''unu belirtiniz:'' @ [10, 10]
     @ ascii ''{text}'' @ [10, 10] @ ascii ''Cevap:''"

definition task2_english_prompt :: str where
  "task2_english_prompt =
     ascii ''Based on the following parliamentary speech, classify whether the speaker'' @ [39]
     @ ascii ''s party is governing (0) or opposition (1):'' @ [10, 10]
     @ ascii ''{text}'' @ [10, 10] @ ascii ''Answer:''"

subsection \<open>The inference cells\<close>

text \<open>
  Cells 17 and 18, up to the accuracy:
  \<^verbatim>\<open>
  turkish_test_dataset = limit_text_length(turkish_test_dataset, column_name="text")
  results_turkish = turkish_test_dataset.map(
      lambda batch: generate_texts(batch, column_name="text", prompt_template=turkish_prompt),
      batched=True, batch_size=8)
  binary_predictions_turkish = process_predictions(results_turkish["predictions"])
  \<close>
  The result is the pair of the new columns \<^verbatim>\<open>predictions\<close> and \<^verbatim>\<open>binary_predictions\<close>.
  On an empty test set \<^verbatim>\<open>map\<close> adds no \<^verbatim>\<open>predictions\<close> column, so the read
  \<^verbatim>\<open>results_turkish["predictions"]\<close> raises \<^verbatim>\<open>KeyError\<close>.
\<close>

definition zero_shot ::
    "pipeline \<Rightarrow> column_name \<Rightarrow> str \<Rightarrow> speech list \<Rightarrow> py_exception + str list \<times> int option list" where
  "zero_shot causal_pipeline column_name prompt test =
     (let dataset = limit_text_length test column_name
      in if dataset = [] then Inl KeyError
         else case map_batched (\<lambda>batch. generate_texts causal_pipeline batch column_name prompt) 8 dataset of
                Inl e \<Rightarrow> Inl e
              | Inr predictions \<Rightarrow> Inr (predictions, process_predictions predictions))"

text \<open>
  \<^verbatim>\<open>
  correct_predictions_turkish = [
      binary == label for binary, label in zip(results_turkish["binary_predictions"], results_turkish["label"])
  ]
  accuracy_turkish = sum(correct_predictions_turkish) / len(correct_predictions_turkish)
  \<close>
  \<^verbatim>\<open>None == label\<close> is false for every integer label. The quotient of two Python integers
  is the float nearest to the exact quotient; the model keeps the exact quotient, and the
  division by zero is \<^verbatim>\<open>ZeroDivisionError\<close>.
\<close>

definition correct_predictions :: "int option list \<Rightarrow> int list \<Rightarrow> bool list" where
  "correct_predictions binary_predictions labels =
     map (\<lambda>(binary, label). binary = Some label) (zip binary_predictions labels)"

definition accuracy :: "int option list \<Rightarrow> int list \<Rightarrow> py_exception + rat" where
  "accuracy binary_predictions labels =
     (let correct = correct_predictions binary_predictions labels
      in if length correct = 0 then Inl ZeroDivisionError
         else Inr (of_nat (sum_list (map of_bool correct)) / of_nat (length correct)))"

text \<open>
  A whole cell: the inference, then the accuracy over the \<^verbatim>\<open>binary_predictions\<close> column
  and the \<^verbatim>\<open>label\<close> column of the results, which holds the labels of the test set. An
  exception of the first part ends the cell, so the accuracy is not computed then.
\<close>

definition zero_shot_cell ::
    "pipeline \<Rightarrow> column_name \<Rightarrow> str \<Rightarrow> speech list
      \<Rightarrow> py_exception + str list \<times> int option list \<times> rat" where
  "zero_shot_cell causal_pipeline column_name prompt test =
     (case zero_shot causal_pipeline column_name prompt test of
        Inl e \<Rightarrow> Inl e
      | Inr (predictions, binary_predictions) \<Rightarrow>
          (case accuracy binary_predictions (map label test) of
             Inl e \<Rightarrow> Inl e
           | Inr accuracy_value \<Rightarrow> Inr (predictions, binary_predictions, accuracy_value)))"

text \<open>
  The text-generation pipeline as the library documents its default
  (\<^verbatim>\<open>return_full_text=True\<close>): one dictionary per prompt, whose \<^verbatim>\<open>generated_text\<close> is the
  prompt followed by the continuation the language model produced for it. The language
  model is the parameter \<open>lm\<close>. task1.ipynb prints the same zero-shot accuracy for its
  Turkish and its English run, 41.82 percent, which is the share of label 0 in its test
  set (0.418216).
\<close>

definition text_generation_pipeline :: "(str \<Rightarrow> nat \<Rightarrow> str) \<Rightarrow> pipeline" where
  "text_generation_pipeline lm prompts max_new_tokens =
     map (\<lambda>prompt. [\<lparr>generated_text = prompt @ lm prompt max_new_tokens\<rparr>]) prompts"

text \<open>
  A pipeline returns the full text when it answers every prompt with a non-empty list
  whose first dictionary holds a text that starts with the prompt.
\<close>

definition returns_full_text :: "pipeline \<Rightarrow> bool" where
  "returns_full_text causal_pipeline \<longleftrightarrow>
     (\<forall>prompts n. list_all2 (\<lambda>prompt out. out \<noteq> [] \<and> prefix prompt (generated_text (hd out)))
                     prompts (causal_pipeline prompts n))"

section \<open>Dataset splitting (task1.ipynb and task2.ipynb, cells 1, 3 and 9)\<close>

text \<open>
  \<^verbatim>\<open>
  TRAIN_TEST_SPLIT_RATIO = 0.1
  RANDOM_STATE = 42
  \<close>
  The fraction is kept as the exact rational 1/10.
\<close>

definition TRAIN_TEST_SPLIT_RATIO :: rat where
  "TRAIN_TEST_SPLIT_RATIO = 1 / 10"

definition RANDOM_STATE :: nat where
  "RANDOM_STATE = 42"

datatype split_error = InsufficientDataError

text \<open>
  Modelled from the spec: \<^verbatim>\<open>train_test_split\<close>, the function of the scikit-learn library
  that \<^verbatim>\<open>stratified_split\<close> calls, is missing from the repository. The spec (section 4.1)
  describes it: "partition records by label value first, then independently sample
  test_fraction of each label-stratum into the test set (using the same seed across
  strata so the run is deterministic), remainder into train", and it "fails with
  InsufficientDataError when any stratum is too small to sample the requested fraction
  without producing an empty split".

  The spec fixes neither how the number of sampled records is rounded nor the seeded
  sampling routine, so both are parameters: \<open>round_count\<close> turns the exact share
  \<open>test_size * n\<close> of a stratum of \<open>n\<close> records into a count, and \<open>sampler\<close> orders a
  stratum for a seed; the first \<open>n_test\<close> records of that order are sampled into the test
  set. The strata are visited in the order of their label values.
\<close>

definition stratum :: "'a list \<Rightarrow> int list \<Rightarrow> int \<Rightarrow> 'a list" where
  "stratum data stratify l = map fst (filter (\<lambda>(x, y). y = l) (zip data stratify))"

definition sample_stratum ::
    "(rat \<Rightarrow> nat) \<Rightarrow> (nat \<Rightarrow> 'a list \<Rightarrow> 'a list) \<Rightarrow> rat \<Rightarrow> nat \<Rightarrow> 'a list
      \<Rightarrow> split_error + 'a list \<times> 'a list" where
  "sample_stratum round_count sampler test_size random_state records =
     (let shuffled = sampler random_state records;
          n_test = round_count (test_size * of_nat (length records));
          test = take n_test shuffled;
          train = drop n_test shuffled
      in if train = [] \<or> test = [] then Inl InsufficientDataError else Inr (train, test))"

fun sample_strata ::
    "(rat \<Rightarrow> nat) \<Rightarrow> (nat \<Rightarrow> 'a list \<Rightarrow> 'a list) \<Rightarrow> rat \<Rightarrow> nat \<Rightarrow> 'a list list
      \<Rightarrow> split_error + 'a list \<times> 'a list" where
  "sample_strata round_count sampler test_size random_state [] = Inr ([], [])"
| "sample_strata round_count sampler test_size random_state (records # strata) =
     (case sample_stratum round_count sampler test_size random_state records of
        Inl e \<Rightarrow> Inl e
      | Inr (train, test) \<Rightarrow>
          (case sample_strata round_count sampler test_size random_state strata of
             Inl e \<Rightarrow> Inl e
           | Inr (trains, tests) \<Rightarrow> Inr (train @ trains, test @ tests)))"

definition train_test_split ::
    "(rat \<Rightarrow> nat) \<Rightarrow> (nat \<Rightarrow> 'a list \<Rightarrow> 'a list) \<Rightarrow> 'a list \<Rightarrow> rat \<Rightarrow> int list \<Rightarrow> nat
      \<Rightarrow> split_error + 'a list \<times> 'a list" where
  "train_test_split round_count sampler data test_size stratify random_state =
     sample_strata round_count sampler test_size random_state
       (map (stratum data stratify) (sort (remdups stratify)))"

text \<open>
  \<^verbatim>\<open>
  def stratified_split(data, test_size=TRAIN_TEST_SPLIT_RATIO, random_state=RANDOM_STATE):
      train, test = train_test_split(
          data,
          test_size=test_size,
          stratify=data['label'],
          random_state=random_state
      )
      ...
      return train, test
  \<close>
  The four \<^verbatim>\<open>print\<close> calls between the split and the \<^verbatim>\<open>return\<close> only write the class
  distributions to the cell's output. \<open>round_count\<close> and \<open>sampler\<close> are the two
  parameters of the modelled \<open>train_test_split\<close>.
\<close>

definition stratified_split ::
    "(rat \<Rightarrow> nat) \<Rightarrow> (nat \<Rightarrow> speech list \<Rightarrow> speech list) \<Rightarrow> speech list \<Rightarrow> rat \<Rightarrow> nat
      \<Rightarrow> split_error + speech list \<times> speech list" where
  "stratified_split round_count sampler data test_size random_state =
     train_test_split round_count sampler data test_size (map label data) random_state"

section \<open>Fine-tuning (task1.ipynb and task2.ipynb, cell 6)\<close>

text \<open>
  The arguments \<^verbatim>\<open>train_model\<close> hands to the trainer:
  \<^verbatim>\<open>
  training_args = TrainingArguments(
      output_dir="./results_task1",
      eval_strategy="epoch",
      save_strategy="epoch",
      learning_rate=2e-5,
      per_device_train_batch_size=16,
      per_device_eval_batch_size=16,
      num_train_epochs=3,
      weight_decay=0.01,
      save_total_limit=2,
      load_best_model_at_end=True,
      logging_dir='./logs',
      logging_steps=50
  )
  \<close>
  The two notebooks differ in \<^verbatim>\<open>output_dir\<close> only (\<^verbatim>\<open>"./results_task2"\<close> in task2.ipynb),
  so the directory is the argument of \<open>training_args\<close>. A strategy is one of the
  library's three values \<^verbatim>\<open>"no"\<close>, \<^verbatim>\<open>"steps"\<close> and \<^verbatim>\<open>"epoch"\<close>.
\<close>

datatype interval_strategy = No | Steps | Epoch

record training_arguments =
  output_dir :: str
  eval_strategy :: interval_strategy
  save_strategy :: interval_strategy
  learning_rate :: rat
  per_device_train_batch_size :: nat
  per_device_eval_batch_size :: nat
  num_train_epochs :: nat
  weight_decay :: rat
  save_total_limit :: "nat option"
  load_best_model_at_end :: bool
  logging_dir :: str
  logging_steps :: nat

definition training_args :: "str \<Rightarrow> training_arguments" where
  "training_args dir =
     \<lparr>output_dir = dir,
      eval_strategy = Epoch,
      save_strategy = Epoch,
      learning_rate = 2 / 100000,
      per_device_train_batch_size = 16,
      per_device_eval_batch_size = 16,
      num_train_epochs = 3,
      weight_decay = 1 / 100,
      save_total_limit = Some 2,
      load_best_model_at_end = True,
      logging_dir = ascii ''./logs'',
      logging_steps = 50\<rparr>"

text \<open>
  Modelled from the spec: the \<^verbatim>\<open>Trainer\<close> of the transformers library, whose
  \<^verbatim>\<open>train()\<close> the cell calls, is missing from the repository. The spec (section 4.2)
  describes the external capability as configured with an epoch count, "a checkpoint
  cadence matching the evaluation cadence" and a "keep only the best checkpoint by eval
  loss" retention policy: evaluation runs once per epoch, a checkpoint is written at the
  same cadence, the checkpoints on disk are cut back to the retained number without ever
  deleting the best one, and at the end the best checkpoint is loaded.

  The optimisation itself is not modelled: \<open>eval_loss e\<close> is the evaluation loss of the
  weights after epoch \<open>e\<close>, a parameter. Weights are named by the epoch that produced
  them (0 for the pretrained model), a checkpoint by its epoch; \<open>checkpoints\<close> lists the
  ones on disk, oldest first. In an epoch the trainer trains, evaluates when the
  evaluation strategy says so, and saves when the save strategy says so; a save records a
  new best checkpoint when the loss just measured is lower than the best so far, then
  deletes the oldest checkpoints beyond \<^verbatim>\<open>save_total_limit\<close>, sparing the best one.
\<close>

record trainer_state =
  weights :: nat
  evaluations :: "(nat \<times> rat) list"
  saves :: "nat list"
  checkpoints :: "nat list"
  best_model_checkpoint :: "nat option"
  best_metric :: "rat option"

fun prune :: "nat \<Rightarrow> nat option \<Rightarrow> nat list \<Rightarrow> nat list" where
  "prune limit best [] = []"
| "prune limit best (c # cs) =
     (if length (c # cs) \<le> limit then c # cs
      else if Some c = best then c # prune (limit - 1) best cs
      else prune limit best cs)"

definition rotate_checkpoints :: "training_arguments \<Rightarrow> nat option \<Rightarrow> nat list \<Rightarrow> nat list" where
  "rotate_checkpoints args best cs =
     (case save_total_limit args of None \<Rightarrow> cs | Some limit \<Rightarrow> prune limit best cs)"

definition save_checkpoint :: "training_arguments \<Rightarrow> rat option \<Rightarrow> nat \<Rightarrow> trainer_state \<Rightarrow> trainer_state" where
  "save_checkpoint args metrics e s =
     (let s' = (case metrics of
                  None \<Rightarrow> s
                | Some loss \<Rightarrow>
                    if load_best_model_at_end args
                       \<and> (case best_metric s of None \<Rightarrow> True | Some m \<Rightarrow> loss < m)
                    then s\<lparr>best_model_checkpoint := Some e, best_metric := Some loss\<rparr>
                    else s)
      in s'\<lparr>saves := saves s' @ [e],
             checkpoints := rotate_checkpoints args (best_model_checkpoint s') (checkpoints s' @ [e])\<rparr>)"

definition epoch_step :: "training_arguments \<Rightarrow> (nat \<Rightarrow> rat) \<Rightarrow> trainer_state \<Rightarrow> nat \<Rightarrow> trainer_state" where
  "epoch_step args eval_loss s e =
     (let s1 = s\<lparr>weights := e\<rparr>;
          metrics = (if eval_strategy args = Epoch then Some (eval_loss e) else None);
          s2 = (case metrics of
                  None \<Rightarrow> s1
                | Some loss \<Rightarrow> s1\<lparr>evaluations := evaluations s1 @ [(e, loss)]\<rparr>)
      in if save_strategy args = Epoch then save_checkpoint args metrics e s2 else s2)"

definition initial_state :: trainer_state where
  "initial_state =
     \<lparr>weights = 0, evaluations = [], saves = [], checkpoints = [],
      best_model_checkpoint = None, best_metric = None\<rparr>"

definition after_epochs :: "training_arguments \<Rightarrow> (nat \<Rightarrow> rat) \<Rightarrow> nat \<Rightarrow> trainer_state" where
  "after_epochs args eval_loss k = foldl (epoch_step args eval_loss) initial_state [1..<Suc k]"

definition trainer_train :: "training_arguments \<Rightarrow> (nat \<Rightarrow> rat) \<Rightarrow> trainer_state" where
  "trainer_train args eval_loss =
     (let s = after_epochs args eval_loss (num_train_epochs args)
      in case best_model_checkpoint s of
           Some b \<Rightarrow> if load_best_model_at_end args then s\<lparr>weights := b\<rparr> else s
         | None \<Rightarrow> s)"

text \<open>
  \<^verbatim>\<open>
  def train_model(train_dataset, test_dataset, tokenizer):
      model = BertForSequenceClassification.from_pretrained(MODEL_NAME, num_labels=2)
      training_args = TrainingArguments(...)
      trainer = Trainer(model=model, args=training_args, train_dataset=train_dataset,
                        eval_dataset=test_dataset, tokenizer=tokenizer)
      trainer.train()
      results = trainer.evaluate()
      print("Evaluation Results:", results)
      return model, trainer
  \<close>
  \<open>results\<close> is the evaluation loss of the weights the model holds after training.
\<close>

definition train_model :: "str \<Rightarrow> (nat \<Rightarrow> rat) \<Rightarrow> trainer_state \<times> rat" where
  "train_model dir eval_loss =
     (let trainer = trainer_train (training_args dir) eval_loss;
          results = eval_loss (weights trainer)
      in (trainer, results))"

section \<open>Notions used in the statements\<close>

text \<open>What one pass of the loop body of \<open>process_predictions\<close> appends for a prediction.\<close>

definition extract_label :: "str \<Rightarrow> int option" where
  "extract_label pred =
     (if of_char CHR ''0'' \<in> set pred then Some 0
      else if of_char CHR ''1'' \<in> set pred then Some 1
      else None)"

text \<open>A template formats every text, and the formatted prompt holds the character "0".\<close>

definition always_formats_with_zero :: "str \<Rightarrow> bool" where
  "always_formats_with_zero prompt \<longleftrightarrow>
     (\<forall>t. \<exists>fp. format_text prompt t = Inr fp \<and> of_char CHR ''0'' \<in> set fp)"

text \<open>A sampling routine only rearranges the records it is given.\<close>

definition rearranges :: "(nat \<Rightarrow> 'a list \<Rightarrow> 'a list) \<Rightarrow> bool" where
  "rearranges sampler \<longleftrightarrow> (\<forall>seed xs. mset (sampler seed xs) = mset xs)"

text \<open>A rounding of the exact share of a stratum is off by less than one record.\<close>

definition rounds_within_one :: "(rat \<Rightarrow> nat) \<Rightarrow> bool" where
  "rounds_within_one round_count \<longleftrightarrow> (\<forall>x\<ge>0. \<bar>of_nat (round_count x) - x\<bar> < 1)"

text \<open>
  What holds of the trainer after \<open>k\<close> epochs: one evaluation and one save per epoch, at
  most two different checkpoints on disk, and, once an epoch has run, a best checkpoint
  that is on disk and has the lowest evaluation loss recorded so far.
\<close>

definition trainer_inv :: "(nat \<Rightarrow> rat) \<Rightarrow> nat \<Rightarrow> trainer_state \<Rightarrow> bool" where
  "trainer_inv eval_loss k s \<longleftrightarrow>
     map fst (evaluations s) = [1..<Suc k] \<and> saves s = [1..<Suc k]
     \<and> distinct (checkpoints s) \<and> set (checkpoints s) \<subseteq> {1..k} \<and> length (checkpoints s) \<le> 2
     \<and> (if k = 0 then best_model_checkpoint s = None \<and> best_metric s = None
          else \<exists>b. best_model_checkpoint s = Some b \<and> best_metric s = Some (eval_loss b)
                 \<and> b \<in> set (checkpoints s) \<and> (\<forall>e\<in>{1..k}. eval_loss b \<le> eval_loss e))"

text \<open>
  The evaluation losses task1.ipynb printed for its three epochs, to four decimals:
  0.5300, 0.4772 and 0.4813.
\<close>

definition task1_eval_loss :: "nat \<Rightarrow> rat" where
  "task1_eval_loss e = (if e = 1 then 5300 / 10000 else if e = 2 then 4772 / 10000 else 4813 / 10000)"

text \<open>Rows for the examples.\<close>

definition example_speech :: speech where
  "example_speech =
     \<lparr>id_col = ascii ''tr-1'', speaker = ascii ''A'', sex = ascii ''F'',
      text_col = ascii ''B'' @ [252] @ ascii ''t'' @ [231] @ ascii ''e kabul edildi.'',
      text_en = ascii ''The budget was adopted.'', label = 1\<rparr>"

definition speech_labelled :: "nat \<Rightarrow> int \<Rightarrow> speech" where
  "speech_labelled n l =
     \<lparr>id_col = [n], speaker = ascii ''A'', sex = ascii ''F'',
      text_col = ascii ''metin'', text_en = ascii ''text'', label = l\<rparr>"

definition four_speeches :: "speech list" where
  "four_speeches = [speech_labelled 1 0, speech_labelled 2 1, speech_labelled 3 0, speech_labelled 4 1]"

definition hundred_speeches :: "speech list" where
  "hundred_speeches = replicate 60 (speech_labelled 1 1) @ replicate 40 (speech_labelled 0 0)"

text \<open>
  A pipeline that returns the full text and continues the prompts of one call with the
  given answers, in order; with it, a run of ten rows under the default template, the
  texts it generates and their binary predictions.
\<close>

definition answering_pipeline :: "str list \<Rightarrow> pipeline" where
  "answering_pipeline answers prompts max_new_tokens =
     map (\<lambda>(prompt, answer). [\<lparr>generated_text = prompt @ answer\<rparr>]) (zip prompts answers)"

definition eight_answers :: "str list" where
  "eight_answers =
     [ascii '' 0'', ascii '' 1'', ascii '' left'', ascii '' 1'', ascii '' 0'', ascii '' right'',
      ascii '' 0'', ascii '' 1'']"

definition ten_speeches :: "speech list" where
  "ten_speeches =
     [speech_labelled 1 0, speech_labelled 2 1, speech_labelled 3 0, speech_labelled 4 1,
      speech_labelled 5 1, speech_labelled 6 1, speech_labelled 7 1, speech_labelled 8 0,
      speech_labelled 9 0, speech_labelled 10 0]"

definition ten_generated :: "str list" where
  "ten_generated =
     [ascii ''Classify the text 0'', ascii ''Classify the text 1'', ascii ''Classify the text left'',
      ascii ''Classify the text 1'', ascii ''Classify the text 0'', ascii ''Classify the text right'',
      ascii ''Classify the text 0'', ascii ''Classify the text 1'', ascii ''Classify the text 0'',
      ascii ''Classify the text 1'']"

definition ten_binary :: "int option list" where
  "ten_binary = [Some 0, Some 1, None, Some 1, Some 0, None, Some 0, Some 1, Some 0, Some 1]"

section \<open>Properties of the answer extraction\<close>

lemma str_in_single: "str_in [c] s \<longleftrightarrow> c \<in> set s"
  by (induction s) auto

lemma process_loop_map:
  "process_loop acc predictions = acc @ map extract_label predictions"
  by (induction predictions arbitrary: acc) (simp_all add: extract_label_def ascii_def str_in_single)

lemma process_predictions_map: "process_predictions predictions = map extract_label predictions"
  by (simp add: process_predictions_def process_loop_map)

text \<open>
  Claim C1. For every generated string \<open>s\<close>, \<open>process_predictions\<close> applied to the
  singleton \<open>[s]\<close> returns 0 if the character "0" occurs anywhere in \<open>s\<close>; otherwise 1
  if the character "1" occurs anywhere in \<open>s\<close>; otherwise unknown (\<open>None\<close>). When both
  digits occur the result is 0, and a string with neither digit yields unknown.
\<close>

theorem process_predictions_priority:
  "process_predictions [s] =
     [if of_char CHR ''0'' \<in> set s then Some 0
      else if of_char CHR ''1'' \<in> set s then Some 1
      else None]"
  by (simp add: process_predictions_def ascii_def str_in_single)

section \<open>Properties of the zero-shot cells\<close>

subsection \<open>The templates\<close>

lemma task1_turkish_formats: "always_formats_with_zero task1_turkish_prompt"
  unfolding always_formats_with_zero_def
  by (simp add: format_text_def task1_turkish_prompt_def ascii_def lookup_field_def emit_def
      is_name_char_def)

lemma task1_english_formats: "always_formats_with_zero task1_english_prompt"
  unfolding always_formats_with_zero_def
  by (simp add: format_text_def task1_english_prompt_def ascii_def lookup_field_def emit_def
      is_name_char_def)

lemma task2_turkish_formats: "always_formats_with_zero task2_turkish_prompt"
  unfolding always_formats_with_zero_def
  by (simp add: format_text_def task2_turkish_prompt_def ascii_def lookup_field_def emit_def
      is_name_char_def)

lemma task2_english_formats: "always_formats_with_zero task2_english_prompt"
  unfolding always_formats_with_zero_def
  by (simp add: format_text_def task2_english_prompt_def ascii_def lookup_field_def emit_def
      is_name_char_def)

subsection \<open>Stripping keeps every character that is not whitespace\<close>

lemma mem_dropWhile: "\<not> P c \<Longrightarrow> c \<in> set (dropWhile P xs) \<longleftrightarrow> c \<in> set xs"
  by (induction xs) auto

lemma strip_mem: "\<not> isspace c \<Longrightarrow> c \<in> set (strip s) \<longleftrightarrow> c \<in> set s"
  by (simp add: strip_def mem_dropWhile)

lemma zero_not_space: "\<not> isspace (of_char CHR ''0'')"
  by (simp add: isspace_def)

subsection \<open>From one batch to the whole test set\<close>

lemma comprehension_Inr:
  "\<forall>x\<in>set xs. \<exists>y. f x = Inr y \<and> Q y \<Longrightarrow>
     \<exists>ys. comprehension (map f xs) = Inr ys \<and> length ys = length xs \<and> (\<forall>y\<in>set ys. Q y)"
  by (induction xs) auto

lemma concat_batches: "concat (batches n xs) = xs"
  by (induction n xs rule: batches.induct) (subst batches.simps, auto)

lemma first_generated_zero:
  assumes l2: "list_all2 (\<lambda>prompt out. out \<noteq> [] \<and> prefix prompt (generated_text (hd out))) prompts outs"
    and zp: "\<forall>fp\<in>set prompts. c \<in> set fp"
    and ns: "\<not> isspace c"
    and mem: "out \<in> set outs"
  shows "\<exists>y. (case out of [] \<Rightarrow> Inl IndexError | first # _ \<Rightarrow> Inr (strip (generated_text first))) = Inr y
           \<and> c \<in> set y"
proof -
  obtain i where i: "i < length outs" and oi: "outs ! i = out"
    using mem by (auto simp: in_set_conv_nth)
  have len: "length prompts = length outs"
    using l2 by (rule list_all2_lengthD)
  have ne: "out \<noteq> []" and pre: "prefix (prompts ! i) (generated_text (hd out))"
    using list_all2_nthD2[OF l2 i] oi by simp_all
  have "c \<in> set (prompts ! i)"
    using zp i len by simp
  then have "c \<in> set (generated_text (hd out))"
    using pre set_mono_prefix by blast
  then have "c \<in> set (strip (generated_text (hd out)))"
    using ns by (simp add: strip_mem)
  then show ?thesis
    using ne by (cases out) simp_all
qed

lemma generate_texts_zero:
  assumes full: "returns_full_text causal_pipeline"
    and fmt: "always_formats_with_zero prompt"
  shows "\<exists>preds. generate_texts causal_pipeline batch column_name prompt = Inr preds
           \<and> length preds = length batch \<and> (\<forall>p\<in>set preds. of_char CHR ''0'' \<in> set p)"
proof -
  let ?z = "of_char CHR ''0'' :: nat"
  let ?f = "\<lambda>x. format_text prompt (get_column column_name x)"
  have "\<forall>x\<in>set batch. \<exists>fp. ?f x = Inr fp \<and> ?z \<in> set fp"
    using fmt by (simp add: always_formats_with_zero_def)
  from comprehension_Inr[where f = ?f and Q = "\<lambda>fp. ?z \<in> set fp", OF this]
  obtain prompts where p: "comprehension (map ?f batch) = Inr prompts"
    and lp: "length prompts = length batch" and zp: "\<forall>fp\<in>set prompts. ?z \<in> set fp"
    by auto
  let ?outs = "causal_pipeline prompts 10"
  let ?g = "\<lambda>output. case output of [] \<Rightarrow> Inl IndexError
                        | first # _ \<Rightarrow> Inr (strip (generated_text first))"
  have l2: "list_all2 (\<lambda>prompt out. out \<noteq> [] \<and> prefix prompt (generated_text (hd out))) prompts ?outs"
    using full by (simp add: returns_full_text_def)
  have "\<forall>out\<in>set ?outs. \<exists>y. ?g out = Inr y \<and> ?z \<in> set y"
    using first_generated_zero[OF l2 zp zero_not_space] by blast
  from comprehension_Inr[where f = ?g and Q = "\<lambda>y. ?z \<in> set y", OF this]
  obtain preds where g: "comprehension (map ?g ?outs) = Inr preds"
    and lg: "length preds = length ?outs" and zg: "\<forall>p\<in>set preds. ?z \<in> set p"
    by auto
  have "length ?outs = length batch"
    using list_all2_lengthD[OF l2] lp by simp
  then show ?thesis
    using p g lg zg by (simp add: generate_texts_def)
qed

lemma map_batches_zero:
  assumes "\<And>batch. \<exists>preds. f batch = Inr preds \<and> length preds = length batch \<and> (\<forall>p\<in>set preds. Z p)"
  shows "\<exists>preds. map_batches (\<lambda>batch. case f batch of Inl e \<Rightarrow> Inl e
              | Inr column \<Rightarrow> if length column = length batch then Inr column else Inl ValueError) bs = Inr preds
           \<and> length preds = length (concat bs) \<and> (\<forall>p\<in>set preds. Z p)"
proof (induction bs)
  case Nil
  then show ?case by simp
next
  case (Cons b bs)
  obtain c where "f b = Inr c" "length c = length b" "\<forall>p\<in>set c. Z p"
    using assms by blast
  with Cons show ?case by auto
qed

lemma process_predictions_zero:
  "\<forall>p\<in>set preds. of_char CHR ''0'' \<in> set p \<Longrightarrow>
     process_predictions preds = replicate (length preds) (Some 0)"
  by (induction preds) (simp_all add: process_predictions_map extract_label_def)

lemma zero_shot_zero:
  assumes full: "returns_full_text causal_pipeline"
    and fmt: "always_formats_with_zero prompt"
    and ne: "test \<noteq> []"
  shows "\<exists>predictions. zero_shot causal_pipeline column_name prompt test =
            Inr (predictions, replicate (length test) (Some 0))"
proof -
  let ?d = "limit_text_length test column_name"
  let ?f = "\<lambda>batch. generate_texts causal_pipeline batch column_name prompt"
  have "\<exists>preds. map_batched ?f 8 ?d = Inr preds
          \<and> length preds = length (concat (batches 8 ?d))
          \<and> (\<forall>p\<in>set preds. of_char CHR ''0'' \<in> set p)"
    unfolding map_batched_def
    by (rule map_batches_zero) (rule generate_texts_zero[OF full fmt])
  then obtain preds where mb: "map_batched ?f 8 ?d = Inr preds"
    and len: "length preds = length (concat (batches 8 ?d))"
    and z: "\<forall>p\<in>set preds. of_char CHR ''0'' \<in> set p"
    by (elim exE conjE)
  have "process_predictions preds = replicate (length preds) (Some 0)"
    using z by (rule process_predictions_zero)
  moreover have "length preds = length test"
    using len by (simp add: concat_batches limit_text_length_def)
  moreover have "?d \<noteq> []"
    using ne by (simp add: limit_text_length_def)
  ultimately show ?thesis
    using mb by (simp add: zero_shot_def)
qed

lemma map_batches_length:
  "map_batches (\<lambda>batch. case f batch of Inl e \<Rightarrow> Inl e
        | Inr column \<Rightarrow> if length column = length batch then Inr column else Inl ValueError) bs = Inr col
     \<Longrightarrow> length col = length (concat bs)"
proof (induction bs arbitrary: col)
  case Nil
  then show ?case by simp
next
  case (Cons b bs)
  then show ?case
    by (auto split: sum.splits if_splits)
qed

lemma zero_shot_lengths:
  assumes "zero_shot causal_pipeline column_name prompt test = Inr (generated, binary)"
  shows "length generated = length test \<and> length binary = length test"
proof -
  let ?d = "limit_text_length test column_name"
  from assms have mb: "map_batched (\<lambda>batch. generate_texts causal_pipeline batch column_name prompt) 8 ?d
      = Inr generated" and b: "binary = process_predictions generated"
    by (auto simp: zero_shot_def Let_def split: sum.splits if_splits)
  have "length generated = length (concat (batches 8 ?d))"
    using mb unfolding map_batched_def by (rule map_batches_length)
  then have "length generated = length test"
    by (simp add: concat_batches limit_text_length_def)
  then show ?thesis
    using b by (simp add: process_predictions_map)
qed

lemma zero_shot_success:
  assumes "zero_shot causal_pipeline column_name prompt test = Inr (generated, binary)"
  shows "test \<noteq> []" and "length generated = length test" and "binary = process_predictions generated"
proof -
  show "test \<noteq> []"
    using assms by (auto simp: zero_shot_def limit_text_length_def)
  show "length generated = length test"
    using zero_shot_lengths[OF assms] by simp
  show "binary = process_predictions generated"
    using assms by (auto simp: zero_shot_def Let_def split: sum.splits if_splits)
qed

lemma text_generation_pipeline_full: "returns_full_text (text_generation_pipeline lm)"
  by (simp add: returns_full_text_def text_generation_pipeline_def list_all2_map2 list_all2_same)

text \<open>
  Claim C3. The string scanned by the answer extraction is \<^verbatim>\<open>output[0]["generated_text"]\<close>,
  the full pipeline output, which begins with the prompt itself, and each of the four
  prompt templates (Turkish and English, both tasks) holds the character "0" in its
  "(0)" wording. Therefore, for every test set, either text column and every pipeline
  that returns the full text, whatever the model continues with, the cell succeeds and
  the binary prediction of every record is 0: neither 1 nor unknown is ever produced.
\<close>

theorem zero_shot_always_predicts_zero:
  assumes "returns_full_text causal_pipeline"
    and "prompt \<in> {task1_turkish_prompt, task1_english_prompt, task2_turkish_prompt, task2_english_prompt}"
    and "test \<noteq> []"
  shows "\<exists>predictions. zero_shot causal_pipeline column_name prompt test =
            Inr (predictions, replicate (length test) (Some 0))"
proof -
  have "always_formats_with_zero prompt"
    using assms(2) task1_turkish_formats task1_english_formats task2_turkish_formats
      task2_english_formats
    by auto
  with assms(1) show ?thesis
    using assms(3) by (rule zero_shot_zero)
qed

theorem zero_shot_always_predicts_zero_witness:
  "returns_full_text (text_generation_pipeline (\<lambda>prompt n. ascii '' 1''))
   \<and> task1_english_prompt \<in> {task1_turkish_prompt, task1_english_prompt, task2_turkish_prompt, task2_english_prompt}
   \<and> [example_speech] \<noteq> []
   \<and> (\<exists>predictions. zero_shot (text_generation_pipeline (\<lambda>prompt n. ascii '' 1'')) Text_en
          task1_english_prompt [example_speech] = Inr (predictions, replicate (length [example_speech]) (Some 0)))"
  using zero_shot_always_predicts_zero[of "text_generation_pipeline (\<lambda>prompt n. ascii '' 1'')"
      task1_english_prompt "[example_speech]" Text_en]
  by (simp add: text_generation_pipeline_full)

text \<open>
  Claim C2 says that a record whose text is cut to 500 characters and put through a
  prompt template yields the binary prediction 1 when the model's continuation is
  "Answer: 1". The cell run on such a record, with the English template of task 1 and a
  language model that continues every prompt with "Answer: 1", yields 0: the scanned text
  is the template up to its placeholder (112 characters), the record's text, the rest of
  the template and then the continuation, and the "(0)" of the template is found first.
\<close>

theorem answer_one_extracted_as_zero:
  "zero_shot (text_generation_pipeline (\<lambda>prompt n. ascii ''Answer: 1'')) Text_en
     task1_english_prompt [example_speech]
   = Inr ([take 112 task1_english_prompt @ text_en example_speech
             @ drop 118 task1_english_prompt @ ascii ''Answer: 1''],
          [Some 0])"
  by (simp add: zero_shot_def limit_text_length_def example_speech_def map_batched_def
      batches.simps generate_texts_def text_generation_pipeline_def process_predictions_def
      format_text_def task1_english_prompt_def ascii_def lookup_field_def emit_def is_name_char_def
      strip_def isspace_def)

section \<open>Properties of the accuracy\<close>

lemma correct_predictions_length:
  "length (correct_predictions binary_predictions labels) = min (length binary_predictions) (length labels)"
  by (simp add: correct_predictions_def)

lemma sum_of_bool: "sum_list (map of_bool bs) = length (filter id bs)"
  by (induction bs) simp_all

lemma accuracy_value:
  "accuracy binary_predictions labels =
     (if binary_predictions = [] \<or> labels = [] then Inl ZeroDivisionError
      else Inr (of_nat (length (filter (\<lambda>(binary, label). binary = Some label) (zip binary_predictions labels)))
                / of_nat (min (length binary_predictions) (length labels))))"
proof -
  have h: "length (filter id (correct_predictions binary_predictions labels))
      = length (filter (\<lambda>(binary, label). binary = Some label) (zip binary_predictions labels))"
    by (simp add: correct_predictions_def filter_map comp_def)
  have z: "(correct_predictions binary_predictions labels = [])
      = (binary_predictions = [] \<or> labels = [])"
    by (cases binary_predictions; cases labels) (simp_all add: correct_predictions_def)
  show ?thesis
  proof (cases "binary_predictions = [] \<or> labels = []")
    case True
    then have "correct_predictions binary_predictions labels = []"
      using z by simp
    then show ?thesis
      using True by (simp add: accuracy_def)
  next
    case False
    then have "correct_predictions binary_predictions labels \<noteq> []"
      using z by simp
    then show ?thesis
      using False by (simp add: accuracy_def Let_def sum_of_bool h correct_predictions_length)
  qed
qed

lemma zero_shot_cell_value:
  assumes "zero_shot causal_pipeline column_name prompt test = Inr (generated, binary)"
  shows "zero_shot_cell causal_pipeline column_name prompt test =
           Inr (generated, binary,
                of_nat (length (filter (\<lambda>(binary, label). binary = Some label) (zip binary (map label test))))
                / of_nat (length test))"
proof -
  have ne: "test \<noteq> []" and len: "length binary = length test"
    using zero_shot_success(1)[OF assms] zero_shot_lengths[OF assms] by simp_all
  then have "binary \<noteq> []"
    by auto
  then show ?thesis
    using ne len by (simp add: zero_shot_cell_def assms accuracy_value)
qed

lemma format_from_error:
  "format_from state template text_arg = Inl e \<Longrightarrow> e \<in> {ValueError, KeyError, FormatNotModelled}"
  by (induction state template text_arg rule: format_from.induct)
     (auto simp: emit_def lookup_field_def split: if_splits sum.splits)

lemma comprehension_error:
  "comprehension (map f xs) = Inl e \<Longrightarrow> \<exists>x\<in>set xs. f x = Inl e"
  by (induction xs) (auto split: sum.splits)

lemma generate_texts_error:
  assumes "generate_texts causal_pipeline batch column_name prompt = Inl e"
  shows "e \<noteq> ZeroDivisionError"
proof (cases "comprehension (map (\<lambda>x. format_text prompt (get_column column_name x)) batch)")
  case (Inl e')
  then have "e = e'"
    using assms by (simp add: generate_texts_def)
  moreover obtain x where "format_text prompt (get_column column_name x) = Inl e'"
    using comprehension_error[OF Inl] by blast
  ultimately show ?thesis
    using format_from_error by (fastforce simp: format_text_def)
next
  case (Inr prompts)
  then have "comprehension (map (\<lambda>output. case output of [] \<Rightarrow> Inl IndexError
               | first # _ \<Rightarrow> Inr (strip (generated_text first))) (causal_pipeline prompts 10)) = Inl e"
    using assms by (simp add: generate_texts_def)
  from comprehension_error[OF this] show ?thesis
  proof (elim bexE)
    fix out
    assume "(case out of [] \<Rightarrow> Inl IndexError
             | first # _ \<Rightarrow> Inr (strip (generated_text first))) = Inl e"
    then show ?thesis
      by (cases out) auto
  qed
qed

lemma map_batches_error:
  "map_batches f bs = Inl e \<Longrightarrow> \<exists>b\<in>set bs. f b = Inl e"
  by (induction bs) (auto split: sum.splits)

lemma zero_shot_error:
  assumes "zero_shot causal_pipeline column_name prompt test = Inl e"
  shows "e \<noteq> ZeroDivisionError"
proof (cases "limit_text_length test column_name = []")
  case True
  then show ?thesis
    using assms by (simp add: zero_shot_def)
next
  case False
  then have "map_batched (\<lambda>batch. generate_texts causal_pipeline batch column_name prompt) 8
               (limit_text_length test column_name) = Inl e"
    using assms by (simp add: zero_shot_def split: sum.splits)
  then obtain b where "(case generate_texts causal_pipeline b column_name prompt of Inl e \<Rightarrow> Inl e
      | Inr column \<Rightarrow> if length column = length b then Inr column else Inl ValueError) = Inl e"
    unfolding map_batched_def using map_batches_error by fast
  then show ?thesis
    using generate_texts_error by (auto split: sum.splits if_splits)
qed

lemma zero_shot_cell_error:
  "zero_shot_cell causal_pipeline column_name prompt test \<noteq> Inl ZeroDivisionError"
proof (cases "zero_shot causal_pipeline column_name prompt test")
  case (Inl e)
  then show ?thesis
    using zero_shot_error[OF Inl] by (simp add: zero_shot_cell_def)
next
  case (Inr r)
  then obtain generated binary where "zero_shot causal_pipeline column_name prompt test = Inr (generated, binary)"
    by (cases r) auto
  from zero_shot_cell_value[OF this] show ?thesis
    by simp
qed

lemma zero_shot_cell_empty: "zero_shot_cell causal_pipeline column_name prompt [] = Inl KeyError"
  by (simp add: zero_shot_cell_def zero_shot_def limit_text_length_def)

lemma ten_run:
  "zero_shot (answering_pipeline eight_answers) Text default_prompt_template ten_speeches
     = Inr (ten_generated, ten_binary)"
  by (simp add: zero_shot_def limit_text_length_def ten_speeches_def speech_labelled_def map_batched_def
      batches.simps generate_texts_def answering_pipeline_def eight_answers_def
      process_predictions_def format_text_def default_prompt_template_def ascii_def emit_def
      strip_def isspace_def ten_generated_def ten_binary_def)

lemma ten_cell:
  "zero_shot_cell (answering_pipeline eight_answers) Text default_prompt_template ten_speeches
     = Inr (ten_generated, ten_binary, 4 / 10)"
  by (simp add: zero_shot_cell_def ten_run)
     (simp add: accuracy_def correct_predictions_def ten_binary_def ten_speeches_def speech_labelled_def)

lemma example_cell:
  "zero_shot_cell (text_generation_pipeline (\<lambda>prompt n. ascii ''Answer: 1'')) Text_en
     task1_english_prompt [example_speech]
   = Inr ([take 112 task1_english_prompt @ text_en example_speech
             @ drop 118 task1_english_prompt @ ascii ''Answer: 1''],
          [Some 0], 0)"
proof -
  have "zero_shot (text_generation_pipeline (\<lambda>prompt n. ascii ''Answer: 1'')) Text_en
     task1_english_prompt [example_speech]
   = Inr ([take 112 task1_english_prompt @ text_en example_speech
             @ drop 118 task1_english_prompt @ ascii ''Answer: 1''],
          [Some 0])"
    by (simp add: zero_shot_def limit_text_length_def example_speech_def map_batched_def
      batches.simps generate_texts_def text_generation_pipeline_def process_predictions_def
      format_text_def task1_english_prompt_def ascii_def lookup_field_def emit_def is_name_char_def
      strip_def isspace_def)
  from zero_shot_cell_value[OF this] show ?thesis
    by (simp add: example_speech_def)
qed

text \<open>
  Claim C7. Unknown predictions are kept in the zero-shot results, one entry per input
  record, and count as incorrect in the accuracy. A cell that succeeds returns one
  generated text and one binary prediction per test record; the binary predictions are
  \<open>process_predictions\<close> of the generated texts, so a record whose generated text holds
  neither digit has the binary prediction \<open>None\<close>, which does not match its true label;
  and the accuracy of the cell is the number of matches divided by the number of records,
  4/10 = 0.40 when exactly 4 of 10 predictions equal their true label. The same holds of
  \<open>process_predictions\<close> and of the accuracy expression on any columns.
\<close>

theorem unknown_kept_and_incorrect:
  "(zero_shot causal_pipeline column_name prompt test = Inr (generated, binary)
      \<longrightarrow> length generated = length test \<and> length binary = length test
          \<and> binary = process_predictions generated
          \<and> (\<forall>i<length test.
                of_char CHR ''0'' \<notin> set (generated ! i) \<and> of_char CHR ''1'' \<notin> set (generated ! i)
                \<longrightarrow> binary ! i = None \<and> correct_predictions binary (map label test) ! i = False)
          \<and> zero_shot_cell causal_pipeline column_name prompt test =
                Inr (generated, binary,
                     of_nat (length (filter (\<lambda>(binary, label). binary = Some label)
                                       (zip binary (map label test))))
                     / of_nat (length test)))
   \<and> (zero_shot causal_pipeline column_name prompt test = Inr (generated, binary)
        \<and> length test = 10
        \<and> length (filter (\<lambda>(binary, label). binary = Some label) (zip binary (map label test))) = 4
        \<longrightarrow> zero_shot_cell causal_pipeline column_name prompt test = Inr (generated, binary, 4 / 10))
   \<and> length (process_predictions predictions) = length predictions
   \<and> (\<forall>i. i < length predictions
          \<and> of_char CHR ''0'' \<notin> set (predictions ! i) \<and> of_char CHR ''1'' \<notin> set (predictions ! i)
          \<longrightarrow> process_predictions predictions ! i = None)
   \<and> (\<forall>i. i < length binary_predictions \<and> i < length labels \<and> binary_predictions ! i = None
          \<longrightarrow> correct_predictions binary_predictions labels ! i = False)
   \<and> (length binary_predictions = 10 \<and> length labels = 10
        \<and> length (filter (\<lambda>(binary, label). binary = Some label) (zip binary_predictions labels)) = 4
        \<longrightarrow> accuracy binary_predictions labels = Inr (4 / 10))"
proof -
  have none: "process_predictions ps ! i = None"
    if "i < length ps \<and> of_char CHR ''0'' \<notin> set (ps ! i) \<and> of_char CHR ''1'' \<notin> set (ps ! i)" for ps i
    using that by (simp add: process_predictions_map extract_label_def)
  have wrong: "correct_predictions bs ls ! i = False"
    if "i < length bs \<and> i < length ls \<and> bs ! i = None" for bs ls i
    using that by (simp add: correct_predictions_def)
  have run: "length generated = length test \<and> length binary = length test
          \<and> binary = process_predictions generated
          \<and> (\<forall>i<length test.
                of_char CHR ''0'' \<notin> set (generated ! i) \<and> of_char CHR ''1'' \<notin> set (generated ! i)
                \<longrightarrow> binary ! i = None \<and> correct_predictions binary (map label test) ! i = False)
          \<and> zero_shot_cell causal_pipeline column_name prompt test =
                Inr (generated, binary,
                     of_nat (length (filter (\<lambda>(binary, label). binary = Some label)
                                       (zip binary (map label test))))
                     / of_nat (length test))"
    if z: "zero_shot causal_pipeline column_name prompt test = Inr (generated, binary)"
  proof -
    have l: "length generated = length test" "length binary = length test"
      and b: "binary = process_predictions generated"
      using zero_shot_lengths[OF z] zero_shot_success(3)[OF z] by simp_all
    have "binary ! i = None \<and> correct_predictions binary (map label test) ! i = False"
      if "i < length test"
        and "of_char CHR ''0'' \<notin> set (generated ! i) \<and> of_char CHR ''1'' \<notin> set (generated ! i)" for i
    proof -
      have "binary ! i = None"
        unfolding b using that l(1) by (intro none) simp
      then show ?thesis
        using that(1) l(2) by (simp add: wrong)
    qed
    then show ?thesis
      using l b zero_shot_cell_value[OF z] by blast
  qed
  have ten: "zero_shot_cell causal_pipeline column_name prompt test = Inr (generated, binary, 4 / 10)"
    if "zero_shot causal_pipeline column_name prompt test = Inr (generated, binary)
        \<and> length test = 10
        \<and> length (filter (\<lambda>(binary, label). binary = Some label) (zip binary (map label test))) = 4"
    using that zero_shot_cell_value[of causal_pipeline column_name prompt test generated binary] by simp
  have acc: "accuracy binary_predictions labels = Inr (4 / 10)"
    if a: "length binary_predictions = 10 \<and> length labels = 10
        \<and> length (filter (\<lambda>(binary, label). binary = Some label) (zip binary_predictions labels)) = 4"
  proof -
    have "binary_predictions \<noteq> []" and "labels \<noteq> []"
      using a by auto
    then show ?thesis
      using a by (simp add: accuracy_value)
  qed
  show ?thesis
    using run ten none wrong acc by (simp add: process_predictions_map)
qed

theorem unknown_kept_and_incorrect_witness:
  "zero_shot (answering_pipeline eight_answers) Text default_prompt_template ten_speeches
     = Inr (ten_generated, ten_binary)
   \<and> length ten_generated = length ten_speeches \<and> length ten_binary = length ten_speeches
   \<and> ten_binary = process_predictions ten_generated
   \<and> (2 < length ten_speeches
        \<and> of_char CHR ''0'' \<notin> set (ten_generated ! 2) \<and> of_char CHR ''1'' \<notin> set (ten_generated ! 2))
   \<and> ten_binary ! 2 = None
   \<and> correct_predictions ten_binary (map label ten_speeches) ! 2 = False
   \<and> (length ten_speeches = 10
        \<and> length (filter (\<lambda>(binary, label). binary = Some label)
                    (zip ten_binary (map label ten_speeches))) = 4)
   \<and> zero_shot_cell (answering_pipeline eight_answers) Text default_prompt_template ten_speeches
       = Inr (ten_generated, ten_binary, 4 / 10)
   \<and> accuracy ten_binary (map label ten_speeches) = Inr (4 / 10)"
proof -
  have a: "2 < length ten_speeches
        \<and> of_char CHR ''0'' \<notin> set (ten_generated ! 2) \<and> of_char CHR ''1'' \<notin> set (ten_generated ! 2)"
    by (simp add: ten_speeches_def ten_generated_def ascii_def)
  have c: "length ten_speeches = 10
        \<and> length (filter (\<lambda>(binary, label). binary = Some label)
                    (zip ten_binary (map label ten_speeches))) = 4"
    by (simp add: ten_binary_def ten_speeches_def speech_labelled_def)
  have d: "length ten_binary = 10 \<and> length (map label ten_speeches) = 10"
    by (simp add: ten_binary_def ten_speeches_def)
  show ?thesis
    using unknown_kept_and_incorrect[of "answering_pipeline eight_answers" Text default_prompt_template
        ten_speeches ten_generated ten_binary ten_generated ten_binary "map label ten_speeches"]
      ten_run a c d
    by blast
qed

text \<open>
  Claim C10, as amended. The accuracy expression divides the number of matching
  predictions by the number of records with no guard, and on empty columns it raises
  \<^verbatim>\<open>ZeroDivisionError\<close>. In the cells an empty test set never reaches the division: the
  read of the \<^verbatim>\<open>predictions\<close> column raises \<^verbatim>\<open>KeyError\<close> first. No cell ends in
  \<^verbatim>\<open>ZeroDivisionError\<close>, and a cell that yields an accuracy was run on a test set that
  is not empty; the accuracy is then the number of matches over the number of records.
\<close>

theorem accuracy_unguarded_division:
  "accuracy binary_predictions labels =
     (if binary_predictions = [] \<or> labels = [] then Inl ZeroDivisionError
      else Inr (of_nat (length (filter (\<lambda>(binary, label). binary = Some label) (zip binary_predictions labels)))
                / of_nat (min (length binary_predictions) (length labels))))
   \<and> zero_shot_cell causal_pipeline column_name prompt [] = Inl KeyError
   \<and> zero_shot_cell causal_pipeline column_name prompt test \<noteq> Inl ZeroDivisionError
   \<and> (zero_shot_cell causal_pipeline column_name prompt test = Inr (generated, binary, a)
        \<longrightarrow> test \<noteq> []
            \<and> a = of_nat (length (filter (\<lambda>(binary, label). binary = Some label)
                                     (zip binary (map label test))))
                  / of_nat (length test))"
proof -
  have "test \<noteq> []
        \<and> a = of_nat (length (filter (\<lambda>(binary, label). binary = Some label) (zip binary (map label test))))
              / of_nat (length test)"
    if c: "zero_shot_cell causal_pipeline column_name prompt test = Inr (generated, binary, a)"
  proof -
    from c obtain g b where z: "zero_shot causal_pipeline column_name prompt test = Inr (g, b)"
      by (auto simp: zero_shot_cell_def split: sum.splits)
    from zero_shot_cell_value[OF z] c have "g = generated" "b = binary"
      and "a = of_nat (length (filter (\<lambda>(binary, label). binary = Some label) (zip b (map label test))))
              / of_nat (length test)"
      by simp_all
    then show ?thesis
      using zero_shot_success(1)[OF z] by simp
  qed
  then show ?thesis
    using accuracy_value zero_shot_cell_empty zero_shot_cell_error by blast
qed

theorem accuracy_unguarded_division_witness:
  "zero_shot_cell (text_generation_pipeline (\<lambda>prompt n. ascii ''Answer: 1'')) Text_en
     task1_english_prompt [example_speech]
   = Inr ([take 112 task1_english_prompt @ text_en example_speech
             @ drop 118 task1_english_prompt @ ascii ''Answer: 1''],
          [Some 0], 0)
   \<and> [example_speech] \<noteq> []
   \<and> (0::rat) = of_nat (length (filter (\<lambda>(binary, label). binary = Some label)
                                  (zip [Some 0] (map label [example_speech]))))
                 / of_nat (length [example_speech])
   \<and> zero_shot_cell (text_generation_pipeline (\<lambda>prompt n. ascii ''Answer: 1'')) Text_en
        task1_english_prompt [] = Inl KeyError
   \<and> accuracy [] [] = Inl ZeroDivisionError"
  using accuracy_unguarded_division[of "[]" "[]"
      "text_generation_pipeline (\<lambda>prompt n. ascii ''Answer: 1'')" Text_en task1_english_prompt
      "[example_speech]"
      "[take 112 task1_english_prompt @ text_en example_speech
          @ drop 118 task1_english_prompt @ ascii ''Answer: 1'']"
      "[Some 0]" 0]
    example_cell
  by simp

text \<open>
  Claim C10 as stated fails on an empty test set: the cell does not divide by zero there,
  it fails with \<^verbatim>\<open>KeyError\<close> at the column read.
\<close>

theorem empty_test_set_fails_at_column_read:
  "zero_shot_cell (text_generation_pipeline (\<lambda>prompt n. ascii ''Answer: 1'')) Text
     task1_turkish_prompt [] = Inl KeyError
   \<and> zero_shot_cell (text_generation_pipeline (\<lambda>prompt n. ascii ''Answer: 1'')) Text
        task1_turkish_prompt [] \<noteq> Inl ZeroDivisionError"
  by (simp add: zero_shot_cell_empty)

section \<open>Properties of the stratified split\<close>

lemma sample_stratum_mset:
  assumes "rearranges sampler"
    and "sample_stratum round_count sampler test_size random_state records = Inr (train, test)"
  shows "mset train + mset test = mset records"
proof -
  let ?sh = "sampler random_state records"
  let ?k = "round_count (test_size * of_nat (length records))"
  have "train = drop ?k ?sh" and "test = take ?k ?sh"
    using assms(2) by (auto simp: sample_stratum_def Let_def split: if_splits)
  moreover have "mset (take ?k ?sh @ drop ?k ?sh) = mset ?sh"
    by simp
  then have "mset (drop ?k ?sh) + mset (take ?k ?sh) = mset ?sh"
    by (simp only: mset_append ac_simps)
  moreover have "mset ?sh = mset records"
    using assms(1) by (simp add: rearranges_def)
  ultimately show ?thesis
    by simp
qed

lemma sample_strata_mset:
  assumes "rearranges sampler"
    and "sample_strata round_count sampler test_size random_state strata = Inr (train, test)"
  shows "mset train + mset test = mset (concat strata)"
  using assms(2)
proof (induction strata arbitrary: train test)
  case Nil
  then show ?case by simp
next
  case (Cons records strata)
  from Cons.prems obtain tr te trs tes
    where a: "sample_stratum round_count sampler test_size random_state records = Inr (tr, te)"
      and b: "sample_strata round_count sampler test_size random_state strata = Inr (trs, tes)"
      and c: "train = tr @ trs" "test = te @ tes"
    by (auto split: sum.splits)
  have "mset tr + mset te = mset records"
    using assms(1) a by (rule sample_stratum_mset)
  moreover have "mset trs + mset tes = mset (concat strata)"
    using b by (rule Cons.IH)
  ultimately show ?case
    using c by (simp add: ac_simps)
qed

lemma no_stratum_for_other_label:
  "y \<notin> set ls \<Longrightarrow> (\<Sum>l\<leftarrow>ls. if y = l then {#x#} else {#}) = {#}"
  by (induction ls) auto

lemma one_stratum_per_record:
  "distinct ls \<Longrightarrow> y \<in> set ls \<Longrightarrow>
     (\<Sum>l\<leftarrow>ls. if y = l then {#x#} else {#}) = {#x#}"
  by (induction ls) (auto simp: no_stratum_for_other_label)

lemma strata_cover:
  "distinct ls \<Longrightarrow> \<forall>x\<in>set xs. g x \<in> set ls \<Longrightarrow>
     (\<Sum>l\<leftarrow>ls. mset (filter (\<lambda>x. g x = l) xs)) = mset xs"
proof (induction xs)
  case Nil
  then show ?case by (induction ls) auto
next
  case (Cons x xs)
  have "(\<Sum>l\<leftarrow>ls. mset (filter (\<lambda>x. g x = l) (x # xs)))
      = (\<Sum>l\<leftarrow>ls. (if g x = l then {#x#} else {#}) + mset (filter (\<lambda>x. g x = l) xs))"
    by (rule arg_cong[where f = sum_list]) (rule map_cong, auto)
  also have "\<dots> = (\<Sum>l\<leftarrow>ls. if g x = l then {#x#} else {#}) + (\<Sum>l\<leftarrow>ls. mset (filter (\<lambda>x. g x = l) xs))"
    by (simp add: sum_list_addf)
  also have "\<dots> = {#x#} + mset xs"
    using Cons by (simp add: one_stratum_per_record)
  finally show ?case by simp
qed

lemma stratum_filter:
  "stratum data (map g data) l = filter (\<lambda>x. g x = l) data"
  unfolding stratum_def by (induction data) auto

lemma strata_concat_mset:
  "mset (concat (map (stratum data (map g data)) (sort (remdups (map g data))))) = mset data"
proof -
  let ?ls = "sort (remdups (map g data))"
  have "mset (concat (map (stratum data (map g data)) ?ls))
      = (\<Sum>l\<leftarrow>?ls. mset (filter (\<lambda>x. g x = l) data))"
    by (simp add: mset_concat stratum_filter comp_def)
  also have "\<dots> = mset data"
    by (rule strata_cover) auto
  finally show ?thesis .
qed

lemma round_count_exact:
  assumes "rounds_within_one round_count"
  shows "round_count (of_nat k) = k"
proof -
  let ?a = "round_count (of_nat k)"
  have "\<bar>rat_of_nat ?a - rat_of_nat k\<bar> < 1"
    using assms by (simp add: rounds_within_one_def)
  then have "rat_of_nat ?a < rat_of_nat (Suc k)" and "rat_of_nat k < rat_of_nat (Suc ?a)"
    by simp_all
  then have "?a < Suc k" and "k < Suc ?a"
    by (simp_all only: of_nat_less_iff)
  then show ?thesis by simp
qed

lemma rearranges_len: "rearranges sampler \<Longrightarrow> length (sampler seed xs) = length xs"
  by (metis rearranges_def size_mset)

lemma sample_stratum_exact:
  assumes r: "rearranges sampler" and w: "rounds_within_one round_count"
    and k: "test_size * of_nat (length records) = of_nat k"
    and pos: "0 < k" and less: "k < length records"
  shows "sample_stratum round_count sampler test_size random_state records =
           Inr (drop k (sampler random_state records), take k (sampler random_state records))"
proof -
  let ?sh = "sampler random_state records"
  have len: "length ?sh = length records"
    using r by (rule rearranges_len)
  have rc: "round_count (test_size * of_nat (length records)) = k"
    by (simp only: k round_count_exact[OF w])
  have "drop k ?sh \<noteq> []"
    using less len by simp
  moreover have "take k ?sh \<noteq> []"
    using pos less len by (cases ?sh) auto
  ultimately show ?thesis
    unfolding sample_stratum_def Let_def rc by simp
qed

lemma filter_full:
  assumes "length (filter P xs) = length xs"
  shows "\<forall>x\<in>set xs. P x"
proof -
  have "length (filter P xs) + length (filter (\<lambda>x. \<not> P x) xs) = length xs"
    by (rule sum_length_filter_compl)
  with assms have "filter (\<lambda>x. \<not> P x) xs = []"
    by simp
  then show ?thesis
    by (simp add: filter_empty_conv)
qed

lemma binary_labels:
  assumes "length data = a + b"
    and "length (filter (\<lambda>x. g x = (1::int)) data) = a"
    and "length (filter (\<lambda>x. g x = 0) data) = b"
  shows "\<forall>x\<in>set data. g x = 0 \<or> g x = 1"
proof -
  have "length (filter (\<lambda>x. g x = 1) data) + length (filter (\<lambda>x. g x \<noteq> 1) data) = length data"
    by (rule sum_length_filter_compl)
  then have n: "length (filter (\<lambda>x. g x \<noteq> 1) data) = b"
    using assms by simp
  have "filter (\<lambda>x. g x = 0) (filter (\<lambda>x. g x \<noteq> 1) data) = filter (\<lambda>x. g x = 0) data"
    by (induction data) auto
  then have "length (filter (\<lambda>x. g x = 0) (filter (\<lambda>x. g x \<noteq> 1) data)) = length (filter (\<lambda>x. g x \<noteq> 1) data)"
    using n assms(3) by simp
  then have "\<forall>x\<in>set (filter (\<lambda>x. g x \<noteq> 1) data). g x = 0"
    by (rule filter_full)
  then show ?thesis by auto
qed

lemma two_strata:
  assumes "set ls = {0, 1::int}"
  shows "sort (remdups ls) = [0, 1]"
proof -
  have "sort (remdups ls) = sorted_list_of_set (set ls)"
    by (simp add: sorted_list_of_set_sort_remdups)
  then show ?thesis
    using assms by simp
qed

lemma sampled_labels:
  assumes "rearranges sampler"
  shows "set (sampler seed (filter P xs)) \<subseteq> {x. P x}"
proof -
  have "set (sampler seed (filter P xs)) = set (filter P xs)"
    using assms by (metis rearranges_def mset_eq_setD)
  then show ?thesis by auto
qed

lemma filter_all: "set xs \<subseteq> {x. P x} \<Longrightarrow> filter P xs = xs"
  by (induction xs) auto
lemma filter_none: "set xs \<subseteq> {x. \<not> P x} \<Longrightarrow> filter P xs = []"
  by (induction xs) auto

lemma mset_rotate1_same: "mset (rotate1 xs) = mset xs"
  by (cases xs) simp_all

lemma rotate_rearranges: "rearranges rotate"
proof -
  have "mset (rotate n xs) = mset xs" for n and xs :: "'a list"
    by (induction n) (simp_all add: mset_rotate1_same)
  then show ?thesis
    by (simp add: rearranges_def)
qed

lemma ceiling_rounds_within_one: "rounds_within_one (\<lambda>x. nat \<lceil>x\<rceil>)"
proof -
  have "\<bar>rat_of_nat (nat \<lceil>x\<rceil>) - x\<bar> < 1" if "0 \<le> x" for x :: rat
  proof -
    have "0 \<le> \<lceil>x\<rceil>"
      using that by simp
    then have "rat_of_nat (nat \<lceil>x\<rceil>) = of_int \<lceil>x\<rceil>"
      by simp
    moreover have "of_int \<lceil>x\<rceil> - 1 < x" and "x \<le> of_int \<lceil>x\<rceil>"
      using ceiling_correct[of x] by simp_all
    ultimately show ?thesis
      by linarith
  qed
  then show ?thesis
    by (simp add: rounds_within_one_def)
qed

lemma four_split:
  "stratified_split (\<lambda>x. nat \<lceil>x\<rceil>) rotate four_speeches (1 / 2) 42
     = Inr ([speech_labelled 3 0, speech_labelled 4 1], [speech_labelled 1 0, speech_labelled 2 1])"
  by code_simp

text \<open>
  Claim C4. For every dataset \<open>data\<close> whose records carry a label and every
  \<open>test_size\<close> strictly between 0 and 1, a pair \<open>(train, test)\<close> returned by the
  stratified split holds every record of \<open>data\<close> exactly as often as \<open>data\<close> does: no
  record is lost and none is duplicated. When the records of \<open>data\<close> are pairwise
  different, \<open>train\<close> and \<open>test\<close> are disjoint and their union is \<open>data\<close>. The sampling
  routine is any routine that only rearranges a stratum.
\<close>

theorem stratified_split_partition:
  assumes "rearranges sampler"
    and "0 < test_size" and "test_size < 1"
    and "stratified_split round_count sampler data test_size random_state = Inr (train, test)"
  shows "mset train + mset test = mset data
       \<and> (distinct data \<longrightarrow> distinct train \<and> distinct test
             \<and> set train \<inter> set test = {} \<and> set train \<union> set test = set data)"
proof -
  have "mset train + mset test = mset (concat (map (stratum data (map label data)) (sort (remdups (map label data)))))"
    using assms(1,4) unfolding stratified_split_def train_test_split_def
    by (rule sample_strata_mset)
  then have m: "mset (train @ test) = mset data"
    by (simp add: strata_concat_mset)
  have "distinct data \<Longrightarrow> distinct (train @ test)"
    using m by (metis mset_eq_imp_distinct_iff)
  moreover have "set (train @ test) = set data"
    using m by (rule mset_eq_setD)
  ultimately show ?thesis
    using m by auto
qed

theorem stratified_split_partition_witness:
  "rearranges (rotate :: nat \<Rightarrow> speech list \<Rightarrow> speech list) \<and> (0::rat) < 1 / 2 \<and> (1 / 2 :: rat) < 1
   \<and> stratified_split (\<lambda>x. nat \<lceil>x\<rceil>) rotate four_speeches (1 / 2) 42
       = Inr ([speech_labelled 3 0, speech_labelled 4 1], [speech_labelled 1 0, speech_labelled 2 1])
   \<and> mset [speech_labelled 3 0, speech_labelled 4 1] + mset [speech_labelled 1 0, speech_labelled 2 1]
       = mset four_speeches
   \<and> distinct four_speeches
   \<and> set [speech_labelled 3 0, speech_labelled 4 1] \<inter> set [speech_labelled 1 0, speech_labelled 2 1] = {}"
proof -
  have d: "distinct four_speeches"
    by (simp add: four_speeches_def speech_labelled_def)
  have p: "(0::rat) < 1 / 2" and q: "(1 / 2 :: rat) < 1"
    by simp_all
  show ?thesis
    using stratified_split_partition[OF rotate_rearranges p q four_split] d
      rotate_rearranges four_split
    by simp
qed

text \<open>
  Claim C6. Each label stratum is sampled on its own at the requested fraction: for a
  dataset of 100 records, 60 labelled 1 and 40 labelled 0, with the notebook's
  \<open>test_size\<close> 0.1 and seed 42, the split succeeds and the test set has 10 records, 6 of
  them labelled 1 and 4 labelled 0. The shares 6 and 4 are whole numbers, so every
  rounding that is off by less than one record yields exactly these counts.
\<close>

theorem stratified_split_scenario:
  assumes r: "rearranges sampler" and w: "rounds_within_one round_count"
    and n: "length data = 100"
    and n1: "length (filter (\<lambda>x. label x = 1) data) = 60"
    and n0: "length (filter (\<lambda>x. label x = 0) data) = 40"
  shows "\<exists>train test.
           stratified_split round_count sampler data TRAIN_TEST_SPLIT_RATIO RANDOM_STATE = Inr (train, test)
           \<and> length test = 10
           \<and> length (filter (\<lambda>x. label x = 1) test) = 6
           \<and> length (filter (\<lambda>x. label x = 0) test) = 4"
proof -
  let ?s0 = "filter (\<lambda>x. label x = 0) data" and ?s1 = "filter (\<lambda>x. label x = 1) data"
  let ?sh0 = "sampler RANDOM_STATE ?s0" and ?sh1 = "sampler RANDOM_STATE ?s1"
  have bin: "\<forall>x\<in>set data. label x = 0 \<or> label x = 1"
    using n n1 n0 by (intro binary_labels[where a = 60 and b = 40]) simp_all
  have "?s0 \<noteq> []" and "?s1 \<noteq> []"
    using n0 n1 by auto
  then have "0 \<in> label ` set data" and "1 \<in> label ` set data"
    by (auto simp: filter_empty_conv)
  then have "set (map label data) = {0, 1}"
    using bin by auto
  then have strata: "sort (remdups (map label data)) = [0, 1]"
    by (rule two_strata)
  have e0: "sample_stratum round_count sampler TRAIN_TEST_SPLIT_RATIO RANDOM_STATE ?s0
              = Inr (drop 4 ?sh0, take 4 ?sh0)"
    using n0 by (intro sample_stratum_exact[OF r w]) (simp_all add: TRAIN_TEST_SPLIT_RATIO_def)
  have e1: "sample_stratum round_count sampler TRAIN_TEST_SPLIT_RATIO RANDOM_STATE ?s1
              = Inr (drop 6 ?sh1, take 6 ?sh1)"
    using n1 by (intro sample_stratum_exact[OF r w]) (simp_all add: TRAIN_TEST_SPLIT_RATIO_def)
  have split: "stratified_split round_count sampler data TRAIN_TEST_SPLIT_RATIO RANDOM_STATE
                 = Inr (drop 4 ?sh0 @ drop 6 ?sh1, take 4 ?sh0 @ take 6 ?sh1)"
    by (simp add: stratified_split_def train_test_split_def strata stratum_filter e0 e1)
  have l0: "length ?sh0 = 40" and l1: "length ?sh1 = 60"
    using r n0 n1 by (simp_all add: rearranges_len)
  have s0: "set (take 4 ?sh0) \<subseteq> {x. label x = 0}" and s1: "set (take 6 ?sh1) \<subseteq> {x. label x = 1}"
    using sampled_labels[OF r, of RANDOM_STATE] set_take_subset[of _ "sampler RANDOM_STATE _"] by (blast, blast)
  have f00: "filter (\<lambda>x. label x = 0) (take 4 ?sh0) = take 4 ?sh0"
    using s0 by (rule filter_all)
  have f11: "filter (\<lambda>x. label x = 1) (take 6 ?sh1) = take 6 ?sh1"
    using s1 by (rule filter_all)
  have f10: "filter (\<lambda>x. label x = 1) (take 4 ?sh0) = []"
    using s0 by (intro filter_none) auto
  have f01: "filter (\<lambda>x. label x = 0) (take 6 ?sh1) = []"
    using s1 by (intro filter_none) auto
  show ?thesis
    using split l0 l1 by (simp add: f00 f11 f10 f01)
qed

theorem stratified_split_scenario_witness:
  "rearranges (rotate :: nat \<Rightarrow> speech list \<Rightarrow> speech list) \<and> rounds_within_one (\<lambda>x. nat \<lceil>x\<rceil>)
   \<and> length hundred_speeches = 100
   \<and> length (filter (\<lambda>x. label x = 1) hundred_speeches) = 60
   \<and> length (filter (\<lambda>x. label x = 0) hundred_speeches) = 40
   \<and> (\<exists>train test.
         stratified_split (\<lambda>x. nat \<lceil>x\<rceil>) rotate hundred_speeches TRAIN_TEST_SPLIT_RATIO RANDOM_STATE
           = Inr (train, test)
         \<and> length test = 10
         \<and> length (filter (\<lambda>x. label x = 1) test) = 6
         \<and> length (filter (\<lambda>x. label x = 0) test) = 4)"
proof -
  have a: "length hundred_speeches = 100"
    and b: "length (filter (\<lambda>x. label x = 1) hundred_speeches) = 60"
    and c: "length (filter (\<lambda>x. label x = 0) hundred_speeches) = 40"
    by (simp_all add: hundred_speeches_def speech_labelled_def)
  show ?thesis
    using stratified_split_scenario[OF rotate_rearranges ceiling_rounds_within_one a b c]
      rotate_rearranges ceiling_rounds_within_one a b c
    by simp
qed

section \<open>Properties of the trainer\<close>

lemma prune_subset: "set (prune limit best cs) \<subseteq> set cs"
  by (induction cs arbitrary: limit) auto

lemma prune_distinct: "distinct cs \<Longrightarrow> distinct (prune limit best cs)"
proof (induction cs arbitrary: limit)
  case Nil
  then show ?case by simp
next
  case (Cons c cs)
  then show ?case
    using prune_subset[of "limit - 1" best cs] by auto
qed

lemma prune_without_best:
  "best \<notin> Some ` set cs \<Longrightarrow> length (prune limit best cs) \<le> limit"
  by (induction cs) auto

lemma prune_length:
  "distinct cs \<Longrightarrow> 0 < limit \<Longrightarrow> length (prune limit best cs) \<le> limit"
proof (induction cs)
  case Nil
  then show ?case by simp
next
  case (Cons c cs)
  show ?case
  proof (cases "Some c = best")
    case True
    then have "best \<notin> Some ` set cs"
      using Cons.prems(1) by auto
    then have "length (prune (limit - 1) best cs) \<le> limit - 1"
      by (rule prune_without_best)
    then show ?thesis
      using True Cons.prems(2) by auto
  next
    case False
    then show ?thesis
      using Cons by auto
  qed
qed

lemma prune_keeps_best: "b \<in> set cs \<Longrightarrow> b \<in> set (prune limit (Some b) cs)"
  by (induction cs arbitrary: limit) auto

lemma after_epochs_Suc:
  "after_epochs args eval_loss (Suc k) = epoch_step args eval_loss (after_epochs args eval_loss k) (Suc k)"
  by (simp add: after_epochs_def)

lemma trainer_inv_0: "trainer_inv eval_loss 0 initial_state"
  by (simp add: trainer_inv_def initial_state_def)

lemma trainer_inv_step:
  assumes cfg: "eval_strategy args = Epoch" "save_strategy args = Epoch"
      "load_best_model_at_end args" "save_total_limit args = Some 2"
    and inv: "trainer_inv eval_loss k s"
  shows "trainer_inv eval_loss (Suc k) (epoch_step args eval_loss s (Suc k))"
proof -
  let ?e = "Suc k"
  let ?better = "case best_metric s of None \<Rightarrow> True | Some m \<Rightarrow> eval_loss ?e < m"
  let ?b' = "if ?better then Some ?e else best_model_checkpoint s"
  let ?cs = "checkpoints s @ [?e]"
  let ?s' = "epoch_step args eval_loss s ?e"
  have ev: "evaluations ?s' = evaluations s @ [(?e, eval_loss ?e)]"
    and sv: "saves ?s' = saves s @ [?e]"
    and bc: "best_model_checkpoint ?s' = ?b'"
    and bm: "best_metric ?s' = (if ?better then Some (eval_loss ?e) else best_metric s)"
    and cp: "checkpoints ?s' = prune 2 ?b' ?cs"
    using cfg by (simp_all add: epoch_step_def save_checkpoint_def rotate_checkpoints_def Let_def)
  have d: "distinct ?cs" and sub: "set ?cs \<subseteq> {1..?e}"
    using inv by (auto simp: trainer_inv_def)
  have 1: "map fst (evaluations ?s') = [1..<Suc ?e]" "saves ?s' = [1..<Suc ?e]"
    using inv by (simp_all add: ev sv trainer_inv_def)
  have 2: "distinct (checkpoints ?s')" "set (checkpoints ?s') \<subseteq> {1..?e}" "length (checkpoints ?s') \<le> 2"
    unfolding cp using d sub prune_subset[of 2 ?b' ?cs] by (auto intro: prune_distinct prune_length)
  have 3: "\<exists>b. best_model_checkpoint ?s' = Some b \<and> best_metric ?s' = Some (eval_loss b)
             \<and> b \<in> set (checkpoints ?s') \<and> (\<forall>e\<in>{1..?e}. eval_loss b \<le> eval_loss e)"
  proof (cases ?better)
    case True
    have "\<forall>e\<in>{1..?e}. eval_loss ?e \<le> eval_loss e"
    proof (cases "k = 0")
      case True
      then show ?thesis by (auto simp: le_Suc_eq)
    next
      case False
      then obtain b where "best_metric s = Some (eval_loss b)" "\<forall>e\<in>{1..k}. eval_loss b \<le> eval_loss e"
        using inv by (auto simp: trainer_inv_def)
      moreover from this True have lt: "eval_loss ?e < eval_loss b"
        by simp
      ultimately show ?thesis
      proof (intro ballI)
        fix e assume "e \<in> {1..?e}"
        then consider "e = ?e" | "e \<in> {1..k}"
          by (auto simp: le_Suc_eq)
        then show "eval_loss ?e \<le> eval_loss e"
        proof cases
          case 1
          then show ?thesis by simp
        next
          case 2
          then have "eval_loss b \<le> eval_loss e"
            using \<open>\<forall>e\<in>{1..k}. eval_loss b \<le> eval_loss e\<close> by blast
          then show ?thesis
            using lt by simp
        qed
      qed
    qed
    moreover have "?e \<in> set (prune 2 (Some ?e) ?cs)"
      by (rule prune_keeps_best) simp
    ultimately show ?thesis
      using True by (simp add: bc bm cp)
  next
    case False
    then have k: "k \<noteq> 0"
      using inv by (auto simp: trainer_inv_def split: if_splits)
    then obtain b where b: "best_model_checkpoint s = Some b" "best_metric s = Some (eval_loss b)"
      "b \<in> set (checkpoints s)" "\<forall>e\<in>{1..k}. eval_loss b \<le> eval_loss e"
      using inv by (auto simp: trainer_inv_def)
    have "eval_loss b \<le> eval_loss ?e"
      using False b(2) by simp
    then have "\<forall>e\<in>{1..?e}. eval_loss b \<le> eval_loss e"
      using b(4) by (auto simp: le_Suc_eq)
    moreover have "b \<in> set (prune 2 (Some b) ?cs)"
      using b(3) by (intro prune_keeps_best) simp
    ultimately show ?thesis
      using False b by (simp add: bc bm cp)
  qed
  show ?thesis
    unfolding trainer_inv_def using 1 2 3 by simp
qed

lemma trainer_inv_after_epochs:
  assumes "eval_strategy args = Epoch" "save_strategy args = Epoch"
      "load_best_model_at_end args" "save_total_limit args = Some 2"
  shows "trainer_inv eval_loss k (after_epochs args eval_loss k)"
proof (induction k)
  case 0
  show ?case by (simp add: after_epochs_def trainer_inv_0)
next
  case (Suc k)
  show ?case
    unfolding after_epochs_Suc using assms Suc by (rule trainer_inv_step)
qed

text \<open>
  Claim C8. With the training arguments of the notebooks, evaluation and checkpoint
  saving happen once per epoch (epochs 1, 2 and 3), at most 2 checkpoints are on disk
  after every epoch and after training, and the weights the model holds at the end of
  training are those of a checkpoint still on disk whose recorded evaluation loss is the
  lowest of the three epochs, which need not be the last epoch's.
\<close>

theorem best_checkpoint_retained:
  "let s = fst (train_model dir eval_loss) in
     map fst (evaluations s) = [1, 2, 3] \<and> saves s = [1, 2, 3]
     \<and> (\<forall>k. length (checkpoints (after_epochs (training_args dir) eval_loss k)) \<le> 2)
     \<and> length (checkpoints s) \<le> 2
     \<and> weights s \<in> set (checkpoints s)
     \<and> (\<forall>e\<in>{1, 2, 3}. eval_loss (weights s) \<le> eval_loss e)"
proof -
  let ?args = "training_args dir"
  have cfg: "eval_strategy ?args = Epoch" "save_strategy ?args = Epoch"
      "load_best_model_at_end ?args" "save_total_limit ?args = Some 2"
    and n: "num_train_epochs ?args = 3"
    by (simp_all add: training_args_def)
  have inv: "trainer_inv eval_loss k (after_epochs ?args eval_loss k)" for k
    using cfg by (rule trainer_inv_after_epochs)
  let ?s3 = "after_epochs ?args eval_loss 3"
  from inv[of 3] obtain b where b: "best_model_checkpoint ?s3 = Some b" "b \<in> set (checkpoints ?s3)"
      "\<forall>e\<in>{1..3}. eval_loss b \<le> eval_loss e"
    by (auto simp: trainer_inv_def)
  have s: "fst (train_model dir eval_loss) = ?s3\<lparr>weights := b\<rparr>"
    using b(1) cfg(3) n by (simp add: train_model_def trainer_train_def Let_def)
  have u: "[1..<Suc 3] = [1, 2, 3]"
    by (simp add: upt_rec)
  have "map fst (evaluations ?s3) = [1, 2, 3]" "saves ?s3 = [1, 2, 3]" "length (checkpoints ?s3) \<le> 2"
    using inv[of 3] u by (simp_all add: trainer_inv_def)
  moreover have "\<forall>k. length (checkpoints (after_epochs ?args eval_loss k)) \<le> 2"
    using inv by (simp add: trainer_inv_def)
  moreover have "\<forall>e\<in>{1, 2, 3}. eval_loss b \<le> eval_loss e"
    using b(3) by simp
  ultimately show ?thesis
    using b(2) by (simp add: s Let_def)
qed

lemma task1_best: "weights (fst (train_model (ascii ''./results_task1'') task1_eval_loss)) = 2"
  by code_simp

theorem best_checkpoint_retained_witness:
  "map fst (evaluations (fst (train_model (ascii ''./results_task1'') task1_eval_loss))) = [1, 2, 3]
   \<and> saves (fst (train_model (ascii ''./results_task1'') task1_eval_loss)) = [1, 2, 3]
   \<and> length (checkpoints (fst (train_model (ascii ''./results_task1'') task1_eval_loss))) \<le> 2
   \<and> weights (fst (train_model (ascii ''./results_task1'') task1_eval_loss))
       \<in> set (checkpoints (fst (train_model (ascii ''./results_task1'') task1_eval_loss)))
   \<and> weights (fst (train_model (ascii ''./results_task1'') task1_eval_loss)) = 2
   \<and> task1_eval_loss 2 \<le> task1_eval_loss 1
   \<and> task1_eval_loss 2 \<le> task1_eval_loss 3"
  using best_checkpoint_retained[of "ascii ''./results_task1''" task1_eval_loss] task1_best
  by (simp add: Let_def)

end
